theory Spec2Isabelle
  imports Complex_Main "HOL-Library.Word"
begin

section \<open>Strings, bytes and numbers of the JavaScript program\<close>

text \<open>
  A JavaScript string is a sequence of 16-bit code units; a \<open>Buffer\<close> is a sequence of
  bytes. String literals of the program are written \<open>u16 ''...''\<close>.
\<close>

type_synonym ustring = "16 word list"
type_synonym bytes = "8 word list"

definition u16 :: "string \<Rightarrow> ustring" where
  "u16 s = map (\<lambda>c. of_nat (of_char c)) s"

text \<open>
  A JavaScript number: \<open>NaN\<close>, the two infinities, or a finite value (\<open>0\<close> and \<open>-0\<close> are
  both \<open>Fin 0\<close>). The program never computes with numbers; it tests them and prints them.
\<close>

datatype number = NaN | PosInf | NegInf | Fin real

definition isNaN :: "number \<Rightarrow> bool" where
  "isNaN n \<longleftrightarrow> n = NaN"

text \<open>Truthiness of a number: \<open>0\<close> and \<open>NaN\<close> are falsy.\<close>

definition number_truthy :: "number \<Rightarrow> bool" where
  "number_truthy n \<longleftrightarrow> n \<noteq> NaN \<and> n \<noteq> Fin 0"

text \<open>
  A value that reaches the program in a parsed JSON body. TypeScript's types are erased when
  the program runs, so a parameter declared \<open>number\<close> or \<open>string\<close> holds whatever value
  the caller passed.
\<close>

datatype js_value =
    JUndefined
  | JNull
  | JBool bool
  | JNum number
  | JStr ustring
  | JArr "js_value list"
  | JObj "(ustring \<times> js_value) list"

text \<open>Truthiness, as \<open>!v\<close> and \<open>v || d\<close> test it.\<close>

fun truthy :: "js_value \<Rightarrow> bool" where
  "truthy JUndefined = False"
| "truthy JNull = False"
| "truthy (JBool b) = b"
| "truthy (JNum n) = number_truthy n"
| "truthy (JStr s) = (s \<noteq> [])"
| "truthy (JArr _) = True"
| "truthy (JObj _) = True"

text \<open>The decimal rendering of a non-negative integer, as a template literal prints it.\<close>

definition digit :: "nat \<Rightarrow> 16 word" where
  "digit d = of_nat (48 + d)"

function dec :: "nat \<Rightarrow> ustring" where
  "dec n = (if n < 10 then [digit n] else dec (n div 10) @ [digit (n mod 10)])"
  by pat_completeness auto
termination
  by (relation "measure (\<lambda>n. n)") auto

declare dec.simps [simp del]

section \<open>The scene splitter\<close>

text \<open>
  \<^verbatim>\<open>const scenes = noteText.match(/[^.!?]+[.!?]+/g) || [];\<close>

  The three sentence terminators are \<open>.\<close> (0x2E), \<open>!\<close> (0x21) and \<open>?\<close> (0x3F). The
  class \<open>[^.!?]\<close> holds every other code unit, line breaks included.
\<close>

definition is_terminator :: "16 word \<Rightarrow> bool" where
  "is_terminator c \<longleftrightarrow> c = 0x2E \<or> c = 0x21 \<or> c = 0x3F"

text \<open>
  One attempt of the regular expression at the start of \<open>s\<close>. Both quantifiers are greedy:
  \<open>[^.!?]+\<close> takes the whole run of non-terminators, \<open>[.!?]+\<close> the whole run of terminators
  after it. Giving back part of the first run cannot help (the next code unit is then a
  non-terminator), so the attempt succeeds exactly when both runs are non-empty. The result
  is the matched text and the rest of the input.
\<close>

definition match_at :: "ustring \<Rightarrow> (ustring \<times> ustring) option" where
  "match_at s =
     (let body = takeWhile (\<lambda>c. \<not> is_terminator c) s;
          rest = dropWhile (\<lambda>c. \<not> is_terminator c) s;
          marks = takeWhile is_terminator rest
      in if body = [] \<or> marks = [] then None
         else Some (body @ marks, dropWhile is_terminator rest))"

text \<open>
  The global match: the engine tries each start position from left to right, records a
  match and continues after its end.
\<close>

function match_all :: "ustring \<Rightarrow> ustring list" where
  "match_all [] = []"
| "match_all (c # cs) =
     (case match_at (c # cs) of
        Some (m, rest) \<Rightarrow> m # match_all rest
      | None \<Rightarrow> match_all cs)"
  by pat_completeness auto
termination
proof (relation "measure length")
  fix c cs x m rest
  assume "match_at (c # cs) = Some x" and "(m, rest) = x"
  then have "rest = dropWhile is_terminator (dropWhile (\<lambda>c. \<not> is_terminator c) (c # cs))"
    and "takeWhile (\<lambda>c. \<not> is_terminator c) (c # cs) \<noteq> []"
    by (auto simp: match_at_def Let_def split: if_splits)
  then have "\<not> is_terminator c" and "length rest \<le> length cs"
    by (auto split: if_splits
        intro: order_trans [OF length_dropWhile_le] order_trans [OF length_dropWhile_le length_dropWhile_le])
  then show "(rest, c # cs) \<in> measure length"
    by simp
qed simp_all

text \<open>
  \<open>String.prototype.trim\<close> removes the white space and line terminators of ECMAScript from
  both ends.
\<close>

definition is_space :: "16 word \<Rightarrow> bool" where
  "is_space c \<longleftrightarrow>
     c \<in> {0x0009, 0x000A, 0x000B, 0x000C, 0x000D, 0x0020, 0x00A0, 0x1680,
          0x2028, 0x2029, 0x202F, 0x205F, 0x3000, 0xFEFF}
     \<or> (0x2000 \<le> c \<and> c \<le> 0x200A)"

definition trim :: "ustring \<Rightarrow> ustring" where
  "trim s = rev (dropWhile is_space (rev (dropWhile is_space s)))"

text \<open>
  The words of the specification: the sentence content of a text is the text up to and
  including its last terminator.
\<close>

fun sentence_content :: "ustring \<Rightarrow> ustring" where
  "sentence_content [] = []"
| "sentence_content (c # cs) =
     (if is_terminator c \<or> (\<exists>x \<in> set cs. is_terminator x) then c # sentence_content cs else [])"

text \<open>A text has a sentence when a terminator follows its first non-terminator.\<close>

definition has_sentence :: "ustring \<Rightarrow> bool" where
  "has_sentence s \<longleftrightarrow> (\<exists>x \<in> set (dropWhile is_terminator s). is_terminator x)"

section \<open>Errors\<close>

text \<open>
  A thrown value is an \<open>Error\<close> object: its \<open>message\<close> and, for the errors of the
  text-to-speech SDK, the \<open>statusCode\<close> of the rejected request. \<open>new Error(m)\<close> has no
  status code.
\<close>

datatype js_error = JsError (message: ustring) (statusCode: "nat option")

definition new_Error :: "ustring \<Rightarrow> js_error" where
  "new_Error m = JsError m None"

text \<open>
  The program throws plain \<open>Error\<close> objects; the specification names them. Each name below
  is the error the program builds at the place the specification describes.
\<close>

definition MissingTokenError :: js_error where
  "MissingTokenError = new_Error (u16 ''Missing HUGGINGFACE_API_TOKEN'')"

definition EmptyInputError :: js_error where
  "EmptyInputError = new_Error (u16 ''Could not break note into scenes.'')"

definition EmptyStreamError :: js_error where
  "EmptyStreamError = new_Error (u16 ''ElevenLabs SDK returned an empty audio stream.'')"

definition TtsAuthError :: js_error where
  "TtsAuthError = new_Error
     (u16 ''ElevenLabs authentication failed (401). Please check the API key on your Render server.'')"

definition TtsCallError :: "ustring \<Rightarrow> js_error" where
  "TtsCallError m = new_Error (u16 ''ElevenLabs SDK failed: '' @ m)"

definition ImageCallError :: "nat \<Rightarrow> ustring \<Rightarrow> js_error" where
  "ImageCallError st errorBody =
     new_Error (u16 ''Hugging Face API failed with status '' @ dec st @ u16 '': '' @ errorBody)"

definition EmptyVideoError :: js_error where
  "EmptyVideoError = new_Error (u16 ''FFmpeg produced an empty video file.'')"

definition StorageError :: js_error where
  "StorageError = new_Error (u16 ''Failed to upload video to Supabase Storage.'')"

section \<open>The world the program acts on\<close>

text \<open>
  The data \<open>fs.writeFile\<close> is given: a \<open>Buffer\<close> or a string.
\<close>

datatype content = Bytes bytes | Text ustring

text \<open>
  Every effect of a run is recorded, in order: the temporary directory made and removed,
  the files written, the requests to the two remote endpoints, the 20-second wait, the
  external processes and the upload.
\<close>

datatype event =
    Mkdtemp ustring
  | TtsRequest ustring
  | WriteFile ustring content
  | Fetch ustring ustring
  | Sleep nat
  | Ffprobe ustring
  | Ffmpeg ustring ustring ustring
  | ReadFile ustring
  | StorageUpload ustring bool
  | Rm ustring

record world =
  files :: "(ustring \<times> content) list"
  dirs :: "ustring list"
  bucket :: "(ustring \<times> bytes) list"
  ttsCalls :: nat
  fetches :: nat
  trace :: "event list"

text \<open>
  What the services and tools outside the program answer. The stream of the text-to-speech
  SDK yields chunks and may then fail; \<open>fetch\<close> rejects or resolves to a response;
  \<open>ffprobe\<close> hands its callback an error or the metadata, whose \<open>format.duration\<close> is
  \<open>undefined\<close>, a number (when the tool printed digits) or the string the tool printed
  (such as \<open>N/A\<close>); the encoder ends with an output file or with an error.
\<close>

datatype tts_outcome = TtsRejected js_error | TtsStream "bytes list" "js_error option"

record http_response =
  status :: nat
  bodyText :: ustring
  bodyBytes :: bytes

datatype fetch_outcome = FetchRejected js_error | FetchResponse http_response

datatype probe_outcome = ProbeFailed js_error | ProbeMetadata js_value

datatype ffmpeg_outcome = FfmpegFailed js_error | FfmpegEnded bytes

text \<open>
  The environment of a run: the configuration read from \<open>process.env\<close>, the answers of the
  remote services (the \<open>n\<close>-th request to an endpoint is answered by the oracle at \<open>n\<close>), the
  external tools, and the library functions whose results depend on the platform
  (\<open>path.resolve\<close>, the printing and parsing of numbers, the printing of arrays and
  objects, the members every object inherits from \<open>Object.prototype\<close>, the message of the
  \<open>TypeError\<close> thrown when \<open>match\<close> is called on a value that is no string).
\<close>

record env =
  HUGGINGFACE_API_TOKEN :: "ustring option"
  WORKER_SECRET_KEY :: "ustring option"
  os_tmpdir :: ustring
  mkdtemp_suffix :: ustring
  convertAsStream :: "nat \<Rightarrow> ustring \<Rightarrow> tts_outcome"
  fetch :: "nat \<Rightarrow> ustring \<Rightarrow> fetch_outcome"
  ffprobe :: "ustring \<Rightarrow> content option \<Rightarrow> probe_outcome"
  spawn_ffprobe :: "ustring \<Rightarrow> nat option \<times> ustring"
  ffmpeg_save :: "(ustring \<times> content) list \<Rightarrow> ustring \<Rightarrow> ustring \<Rightarrow> ffmpeg_outcome"
  storage_fault :: "ustring \<Rightarrow> js_error option"
  getPublicUrl :: "ustring \<Rightarrow> ustring"
  path_resolve :: "ustring \<Rightarrow> ustring"
  number_toString :: "number \<Rightarrow> ustring"
  parseFloat :: "ustring \<Rightarrow> number"
  object_toString :: "js_value \<Rightarrow> ustring"
  prototype_member :: "ustring \<Rightarrow> ustring option"
  match_TypeError :: "js_value \<Rightarrow> ustring"

text \<open>A value inside a template literal: \<^verbatim>\<open>`${v}`\<close>.\<close>

definition to_string :: "env \<Rightarrow> js_value \<Rightarrow> ustring" where
  "to_string env v =
     (case v of
        JUndefined \<Rightarrow> u16 ''undefined''
      | JNull \<Rightarrow> u16 ''null''
      | JBool b \<Rightarrow> (if b then u16 ''true'' else u16 ''false'')
      | JNum n \<Rightarrow> number_toString env n
      | JStr s \<Rightarrow> s
      | _ \<Rightarrow> object_toString env v)"

definition log_event :: "event \<Rightarrow> world \<Rightarrow> world" where
  "log_event e w = w\<lparr>trace := trace w @ [e]\<rparr>"

subsection \<open>The file system\<close>

text \<open>
  \<open>path.join\<close> of a normalised directory and a plain file name. The calls of the file
  system inside the temporary directory are taken to succeed.
\<close>

definition path_join :: "ustring \<Rightarrow> ustring \<Rightarrow> ustring" where
  "path_join d f = d @ u16 ''/'' @ f"

definition inside :: "ustring \<Rightarrow> ustring \<Rightarrow> bool" where
  "inside d p \<longleftrightarrow> p = d \<or> take (length d + 1) p = d @ u16 ''/''"

definition mkdtemp :: "env \<Rightarrow> ustring \<Rightarrow> world \<Rightarrow> ustring \<times> world" where
  "mkdtemp env pre w =
     (let d = pre @ mkdtemp_suffix env
      in (d, log_event (Mkdtemp d) (w\<lparr>dirs := d # dirs w\<rparr>)))"

definition writeFile :: "ustring \<Rightarrow> content \<Rightarrow> world \<Rightarrow> world" where
  "writeFile p c w =
     log_event (WriteFile p c) (w\<lparr>files := (p, c) # filter (\<lambda>(q, _). q \<noteq> p) (files w)\<rparr>)"

text \<open>\<^verbatim>\<open>fs.rm(tempDir, { recursive: true, force: true })\<close>\<close>

definition rm_recursive :: "ustring \<Rightarrow> world \<Rightarrow> world" where
  "rm_recursive d w =
     log_event (Rm d)
       (w\<lparr>files := filter (\<lambda>(p, _). \<not> inside d p) (files w),
          dirs := filter (\<lambda>p. \<not> inside d p) (dirs w)\<rparr>)"

section \<open>The scene pipeline: \<open>generateVideoAndUpload\<close>\<close>

subsection \<open>Speech: the text-to-speech block of the scene loop\<close>

text \<open>
  \<^verbatim>\<open>
  try {
    const audioStream = await elevenlabs.textToSpeech.convertAsStream(voice, { text: sceneText, ... });
    const chunks: Buffer[] = [];
    for await (const chunk of audioStream as Readable) { chunks.push(chunk); }
    const audioBuffer = Buffer.concat(chunks);
    if (audioBuffer.length === 0) throw new Error("ElevenLabs SDK returned an empty audio stream.");
    await fs.writeFile(audioPath, audioBuffer);
  } catch (error: any) {
    if (error.statusCode === 401) { throw new Error("ElevenLabs authentication failed (401). ..."); }
    throw new Error(`ElevenLabs SDK failed: ${error.message}`);
  }\<close>
  \<open>tts_attempt\<close> is the \<open>try\<close> block, \<open>synthesize_speech\<close> the whole statement.
\<close>

definition tts_attempt :: "env \<Rightarrow> ustring \<Rightarrow> ustring \<Rightarrow> world \<Rightarrow> (js_error + unit) \<times> world" where
  "tts_attempt env sceneText audioPath w =
     (let w1 = log_event (TtsRequest sceneText) (w\<lparr>ttsCalls := Suc (ttsCalls w)\<rparr>)
      in case convertAsStream env (ttsCalls w) sceneText of
           TtsRejected e \<Rightarrow> (Inl e, w1)
         | TtsStream chunks (Some e) \<Rightarrow> (Inl e, w1)
         | TtsStream chunks None \<Rightarrow>
             (let audioBuffer = concat chunks
              in if length audioBuffer = 0 then (Inl EmptyStreamError, w1)
                 else (Inr (), writeFile audioPath (Bytes audioBuffer) w1)))"

definition synthesize_speech :: "env \<Rightarrow> ustring \<Rightarrow> ustring \<Rightarrow> world \<Rightarrow> (js_error + unit) \<times> world" where
  "synthesize_speech env sceneText audioPath w =
     (case tts_attempt env sceneText audioPath w of
        (Inl error, w1) \<Rightarrow>
          if statusCode error = Some 401 then (Inl TtsAuthError, w1)
          else (Inl (TtsCallError (message error)), w1)
      | (Inr u, w1) \<Rightarrow> (Inr u, w1))"

subsection \<open>Image: the text-to-image block of the scene loop\<close>

definition styleGuide :: "(ustring \<times> ustring) list" where
  "styleGuide =
     [(u16 ''Biology'', u16 ''clear educational diagram style, vibrant colors, labels''),
      (u16 ''Chemistry'', u16 ''scientific illustration of molecules and reactions, digital art''),
      (u16 ''Physics'', u16 ''clean physics diagram, showing forces and vectors, minimalist''),
      (u16 ''History'', u16 ''realistic historical photograph style, black and white, cinematic lighting''),
      (u16 ''Literature'', u16 ''dramatic oil painting, expressive, rich colors''),
      (u16 ''Mathematics'', u16 ''clear handwritten chalkboard style, showing the steps of the equation'')]"

text \<open>
  \<^verbatim>\<open>const subjectStyle = styleGuide[subjectName] || "simple educational illustration";\<close>
  A name that is no key of the table but a member inherited from \<open>Object.prototype\<close> (such
  as \<open>constructor\<close>) yields that member, printed as the platform prints it.
\<close>

definition subjectStyle :: "env \<Rightarrow> js_value \<Rightarrow> ustring" where
  "subjectStyle env subjectName =
     (case map_of styleGuide (to_string env subjectName) of
        Some style \<Rightarrow> style
      | None \<Rightarrow>
          (case prototype_member env (to_string env subjectName) of
             Some member \<Rightarrow> member
           | None \<Rightarrow> u16 ''simple educational illustration''))"

definition imagePrompt :: "env \<Rightarrow> js_value \<Rightarrow> ustring \<Rightarrow> ustring" where
  "imagePrompt env subjectName sceneText =
     u16 ''An educational visual for a '' @ to_string env subjectName
       @ u16 '' tutorial about: '' @ [0x22]
       @ sceneText @ [0x22] @ u16 ''. Style: '' @ subjectStyle env subjectName @ u16 ''.''"

text \<open>\<open>response.ok\<close>: the status is in the range 200 to 299.\<close>

definition ok :: "http_response \<Rightarrow> bool" where
  "ok r \<longleftrightarrow> 200 \<le> status r \<and> status r \<le> 299"

text \<open>One \<open>fetch(modelEndpoint, fetchOptions)\<close>: the token and the prompt are all that varies.\<close>

definition do_fetch :: "env \<Rightarrow> ustring \<Rightarrow> ustring \<Rightarrow> world \<Rightarrow> fetch_outcome \<times> world" where
  "do_fetch env token prompt w =
     (fetch env (fetches w) prompt,
      log_event (Fetch token prompt) (w\<lparr>fetches := Suc (fetches w)\<rparr>))"

text \<open>
  \<^verbatim>\<open>
  let response = await fetch(modelEndpoint, fetchOptions);
  if (response.status === 503) {
    await new Promise(resolve => setTimeout(resolve, 20000));
    response = await fetch(modelEndpoint, fetchOptions);
  }
  if (!response.ok) {
    const errorBody = await response.text();
    throw new Error(`Hugging Face API failed with status ${response.status}: ${errorBody}`);
  }
  const imageBuffer = await response.buffer();
  await fs.writeFile(imagePath, imageBuffer);\<close>
  The \<open>catch\<close> around it logs the error and throws it again.
\<close>

definition synthesize_image ::
  "env \<Rightarrow> ustring \<Rightarrow> js_value \<Rightarrow> ustring \<Rightarrow> ustring \<Rightarrow> world \<Rightarrow> (js_error + unit) \<times> world" where
  "synthesize_image env token subjectName sceneText imagePath w =
     (let prompt = imagePrompt env subjectName sceneText
      in case do_fetch env token prompt w of
           (FetchRejected e, w1) \<Rightarrow> (Inl e, w1)
         | (FetchResponse first, w1) \<Rightarrow>
             (case (if status first = 503
                    then do_fetch env token prompt (log_event (Sleep 20000) w1)
                    else (FetchResponse first, w1)) of
                (FetchRejected e, w2) \<Rightarrow> (Inl e, w2)
              | (FetchResponse response, w2) \<Rightarrow>
                  if \<not> ok response
                  then (Inl (ImageCallError (status response) (bodyText response)), w2)
                  else (Inr (), writeFile imagePath (Bytes (bodyBytes response)) w2)))"

subsection \<open>Duration: \<open>getAudioDuration\<close>\<close>

text \<open>
  \<^verbatim>\<open>
  ffmpeg.ffprobe(filePath, (err, metadata) => {
    if (err) return reject(err);
    resolve(metadata.format.duration || 0);
  });\<close>
\<close>

definition or_zero :: "js_value \<Rightarrow> js_value" where
  "or_zero d = (if truthy d then d else JNum (Fin 0))"

definition getAudioDuration :: "env \<Rightarrow> ustring \<Rightarrow> world \<Rightarrow> (js_error + js_value) \<times> world" where
  "getAudioDuration env filePath w =
     (case ffprobe env filePath (map_of (files w) filePath) of
        ProbeFailed err \<Rightarrow> (Inl err, log_event (Ffprobe filePath) w)
      | ProbeMetadata d \<Rightarrow> (Inr (or_zero d), log_event (Ffprobe filePath) w))"

text \<open>
  The other \<open>getAudioDuration\<close> of the repository starts the probe as a child process and
  reads its exit code (\<open>null\<close> when a signal ended it) and its standard output:
  \<^verbatim>\<open>
  probe.on("close", (code) => {
    if (code === 0) {
      const duration = parseFloat(output.trim());
      resolve(isNaN(duration) ? 0 : duration);
    } else {
      reject(new Error(`FFPROBE failed with code ${code}`));
    }
  });\<close>
\<close>

definition ProbeError :: "nat option \<Rightarrow> js_error" where
  "ProbeError code =
     new_Error (u16 ''FFPROBE failed with code ''
       @ (case code of None \<Rightarrow> u16 ''null'' | Some n \<Rightarrow> dec n))"

definition getAudioDuration_spawn :: "env \<Rightarrow> ustring \<Rightarrow> js_error + number" where
  "getAudioDuration_spawn env filePath =
     (case spawn_ffprobe env filePath of
        (code, output) \<Rightarrow>
          if code = Some 0
          then (let duration = parseFloat env (trim output)
                in Inr (if isNaN duration then Fin 0 else duration))
          else Inl (ProbeError code))"

subsection \<open>The scene loop\<close>

record scene_asset =
  audioPath :: ustring
  imagePath :: ustring
  duration :: js_value

definition scene_file :: "ustring \<Rightarrow> nat \<Rightarrow> string \<Rightarrow> ustring" where
  "scene_file tempDir i ext = path_join tempDir (u16 ''scene_'' @ dec i @ u16 ext)"

text \<open>
  \<^verbatim>\<open>
  for (let i = 0; i < scenes.length; i++) {
    const sceneText = scenes[i].trim();
    const audioPath = path.join(tempDir, `scene_${i}.mp3`);   ... speech ...
    const imagePath = path.join(tempDir, `scene_${i}.png`);   ... image ...
    const duration = await getAudioDuration(audioPath);
    sceneAssets.push({ audioPath, imagePath, duration });
  }\<close>
  The loop runs over the scenes still to do, with the index \<open>i\<close> of the first of them and
  the assets pushed so far. A step that throws ends the loop and the run.
\<close>

fun scene_loop ::
  "env \<Rightarrow> ustring \<Rightarrow> ustring \<Rightarrow> js_value \<Rightarrow> ustring list \<Rightarrow> nat \<Rightarrow> scene_asset list \<Rightarrow> world
     \<Rightarrow> (js_error + scene_asset list) \<times> world" where
  "scene_loop env token tempDir subjectName [] i sceneAssets w = (Inr sceneAssets, w)"
| "scene_loop env token tempDir subjectName (scene # scenes) i sceneAssets w =
     (let sceneText = trim scene;
          audio = scene_file tempDir i ''.mp3'';
          image = scene_file tempDir i ''.png''
      in case synthesize_speech env sceneText audio w of
           (Inl e, w1) \<Rightarrow> (Inl e, w1)
         | (Inr _, w1) \<Rightarrow>
             (case synthesize_image env token subjectName sceneText image w1 of
                (Inl e, w2) \<Rightarrow> (Inl e, w2)
              | (Inr _, w2) \<Rightarrow>
                  (case getAudioDuration env audio w2 of
                     (Inl e, w3) \<Rightarrow> (Inl e, w3)
                   | (Inr d, w3) \<Rightarrow>
                       scene_loop env token tempDir subjectName scenes (Suc i)
                         (sceneAssets @ [\<lparr>audioPath = audio, imagePath = image, duration = d\<rparr>])
                         w3)))"

subsection \<open>The manifests\<close>

text \<open>\<open>Array.prototype.join\<close>\<close>

fun join :: "ustring \<Rightarrow> ustring list \<Rightarrow> ustring" where
  "join sep [] = []"
| "join sep [x] = x"
| "join sep (x # y # ys) = x @ sep @ join sep (y # ys)"

text \<open>
  \<^verbatim>\<open>
  sceneAssets.map((a) => `file '${path.resolve(a.imagePath)}'\nduration ${a.duration}`).join("\n")
  sceneAssets.map(a => `file '${path.resolve(a.audioPath)}'`).join("\n")\<close>
  The apostrophe is the code unit 0x27, the line feed 0x0A.
\<close>

definition file_line :: "env \<Rightarrow> ustring \<Rightarrow> ustring" where
  "file_line env p = u16 ''file '' @ [0x27] @ path_resolve env p @ [0x27]"

definition duration_line :: "env \<Rightarrow> js_value \<Rightarrow> ustring" where
  "duration_line env d = u16 ''duration '' @ to_string env d"

definition imageListContent :: "env \<Rightarrow> scene_asset list \<Rightarrow> ustring" where
  "imageListContent env sceneAssets =
     join [0x0A] (map (\<lambda>a. file_line env (imagePath a) @ [0x0A] @ duration_line env (duration a))
                    sceneAssets)"

definition audioListContent :: "env \<Rightarrow> scene_asset list \<Rightarrow> ustring" where
  "audioListContent env sceneAssets =
     join [0x0A] (map (\<lambda>a. file_line env (audioPath a)) sceneAssets)"

definition write_manifests :: "env \<Rightarrow> ustring \<Rightarrow> scene_asset list \<Rightarrow> world \<Rightarrow> world" where
  "write_manifests env tempDir sceneAssets w =
     writeFile (path_join tempDir (u16 ''audiolist.txt'')) (Text (audioListContent env sceneAssets))
       (writeFile (path_join tempDir (u16 ''imagelist.txt''))
          (Text (imageListContent env sceneAssets)) w)"


subsection \<open>The storage publisher: \<open>uploadVideoToSupabase\<close>\<close>

text \<open>
  The bucket \<open>videos\<close> of the storage service. An upload fails when the service reports a
  fault, or when the key holds an object and the caller did not ask to overwrite it
  (\<open>upsert\<close>); otherwise the object at the key is the uploaded one.
\<close>

definition AlreadyExists :: js_error where
  "AlreadyExists = new_Error (u16 ''The resource already exists'')"

definition storage_upload ::
  "env \<Rightarrow> ustring \<Rightarrow> bytes \<Rightarrow> bool \<Rightarrow> world \<Rightarrow> js_error option \<times> world" where
  "storage_upload env key data upsert w =
     (let w1 = log_event (StorageUpload key upsert) w
      in case storage_fault env key of
           Some e \<Rightarrow> (Some e, w1)
         | None \<Rightarrow>
             if \<not> upsert \<and> map_of (bucket w) key \<noteq> None then (Some AlreadyExists, w1)
             else (None, w1\<lparr>bucket := (key, data) # filter (\<lambda>(k, _). k \<noteq> key) (bucket w)\<rparr>))"

text \<open>
  \<^verbatim>\<open>
  const filePath = `note-videos/${noteId}.mp4`;
  const { error: uploadError } = await supabaseAdmin.storage.from('videos')
    .upload(filePath, videoBuffer, { contentType: 'video/mp4', upsert: true });
  if (uploadError) { throw new Error("Failed to upload video to Supabase Storage."); }
  const { data } = supabaseAdmin.storage.from('videos').getPublicUrl(filePath);
  return data.publicUrl;\<close>
\<close>

definition video_key :: "env \<Rightarrow> js_value \<Rightarrow> ustring" where
  "video_key env noteId = u16 ''note-videos/'' @ to_string env noteId @ u16 ''.mp4''"

definition uploadVideoToSupabase ::
  "env \<Rightarrow> js_value \<Rightarrow> bytes \<Rightarrow> world \<Rightarrow> (js_error + ustring) \<times> world" where
  "uploadVideoToSupabase env noteId videoBuffer w =
     (let filePath = video_key env noteId
      in case storage_upload env filePath videoBuffer True w of
           (Some uploadError, w1) \<Rightarrow> (Inl StorageError, w1)
         | (None, w1) \<Rightarrow> (Inr (getPublicUrl env filePath), w1))"

subsection \<open>The run\<close>

text \<open>
  The encoder reads the two manifests and, when it ends without error, has written the
  final video, which the program reads back.
\<close>

definition assemble_and_upload ::
  "env \<Rightarrow> ustring \<Rightarrow> js_value \<Rightarrow> scene_asset list \<Rightarrow> world \<Rightarrow> (js_error + ustring) \<times> world" where
  "assemble_and_upload env tempDir noteId sceneAssets w =
     (let finalVideoPath = path_join tempDir (u16 ''final_video.mp4'');
          imageListPath = path_join tempDir (u16 ''imagelist.txt'');
          audioListPath = path_join tempDir (u16 ''audiolist.txt'');
          w1 = write_manifests env tempDir sceneAssets w;
          w2 = log_event (Ffmpeg imageListPath audioListPath finalVideoPath) w1
      in case ffmpeg_save env (files w1) imageListPath audioListPath of
           FfmpegFailed err \<Rightarrow> (Inl err, w2)
         | FfmpegEnded videoBuffer \<Rightarrow>
             (let w3 = log_event (ReadFile finalVideoPath)
                         (w2\<lparr>files := (finalVideoPath, Bytes videoBuffer)
                                 # filter (\<lambda>(q, _). q \<noteq> finalVideoPath) (files w2)\<rparr>)
              in if length videoBuffer = 0 then (Inl EmptyVideoError, w3)
                 else uploadVideoToSupabase env noteId videoBuffer w3))"

text \<open>
  The body of the \<open>try\<close> statement. \<open>noteText.match\<close> is the splitter when \<open>noteText\<close> is a
  string; on any other value the call throws a \<open>TypeError\<close>.
\<close>

definition try_body ::
  "env \<Rightarrow> ustring \<Rightarrow> ustring \<Rightarrow> js_value \<Rightarrow> js_value \<Rightarrow> js_value \<Rightarrow> world
     \<Rightarrow> (js_error + ustring) \<times> world" where
  "try_body env token tempDir noteId noteText subjectName w =
     (case noteText of
        JStr text \<Rightarrow>
          (let scenes = match_all text
           in if length scenes = 0 then (Inl EmptyInputError, w)
              else (case scene_loop env token tempDir subjectName scenes 0 [] w of
                      (Inl e, w1) \<Rightarrow> (Inl e, w1)
                    | (Inr sceneAssets, w1) \<Rightarrow>
                        assemble_and_upload env tempDir noteId sceneAssets w1))
      | _ \<Rightarrow> (Inl (new_Error (match_TypeError env noteText)), w))"

text \<open>
  The module reads the token when it is loaded, and throws when the variable is unset or
  empty, so that the server does not start without it:
  \<^verbatim>\<open>
  const huggingFaceToken = process.env.HUGGINGFACE_API_TOKEN!;
  if (!huggingFaceToken) { throw new Error("Missing HUGGINGFACE_API_TOKEN or ELEVENLABS_API_KEY"); }\<close>
  Every run belongs to a module that was loaded.
\<close>

definition module_loaded :: "env \<Rightarrow> bool" where
  "module_loaded env =
     (case HUGGINGFACE_API_TOKEN env of None \<Rightarrow> False | Some token \<Rightarrow> token \<noteq> [])"

definition temp_dir :: "env \<Rightarrow> ustring" where
  "temp_dir env = path_join (os_tmpdir env) (u16 ''ai-video-'') @ mkdtemp_suffix env"

text \<open>
  \<^verbatim>\<open>
  const huggingFaceToken = process.env.HUGGINGFACE_API_TOKEN!;
  if (!huggingFaceToken) throw new Error("Missing HUGGINGFACE_API_TOKEN");
  const tempDir = await fs.mkdtemp(path.join(os.tmpdir(), 'ai-video-'));
  try { ... } finally { await fs.rm(tempDir, { recursive: true, force: true }); }\<close>
  The token is missing when the variable is unset or empty.
\<close>

definition generateVideoAndUpload ::
  "env \<Rightarrow> js_value \<Rightarrow> js_value \<Rightarrow> js_value \<Rightarrow> world \<Rightarrow> (js_error + ustring) \<times> world" where
  "generateVideoAndUpload env noteId noteText subjectName w =
     (case HUGGINGFACE_API_TOKEN env of
        None \<Rightarrow> (Inl MissingTokenError, w)
      | Some huggingFaceToken \<Rightarrow>
          if huggingFaceToken = [] then (Inl MissingTokenError, w)
          else (case mkdtemp env (path_join (os_tmpdir env) (u16 ''ai-video-'')) w of
                  (tempDir, w1) \<Rightarrow>
                    (case try_body env huggingFaceToken tempDir noteId noteText subjectName w1 of
                       (result, w2) \<Rightarrow> (result, rm_recursive tempDir w2))))"

section \<open>The request gateway: \<open>POST /generate-video\<close>\<close>

text \<open>A field of the parsed body; a field that is absent reads as \<open>undefined\<close>.\<close>

definition field :: "(ustring \<times> js_value) list \<Rightarrow> string \<Rightarrow> js_value" where
  "field obj k = (case map_of obj (u16 k) of None \<Rightarrow> JUndefined | Some v \<Rightarrow> v)"

text \<open>
  The request as the handler sees it: the body parser has run, and \<open>req.body\<close> is the
  object it parsed.
\<close>

record request =
  authorization :: "ustring option"
  body :: "(ustring \<times> js_value) list"

text \<open>
  A response is \<open>res.status(code).json(object)\<close> of the handler, or the page with which
  Express answers an error that a middleware passed on, under the status of that error.
\<close>

datatype response = Response nat "(ustring \<times> js_value) list" | ErrorPage nat

text \<open>\<^verbatim>\<open>`Bearer ${process.env.WORKER_SECRET_KEY}`\<close>: an unset variable prints as \<open>undefined\<close>.\<close>

definition expected_authorization :: "env \<Rightarrow> ustring" where
  "expected_authorization env =
     u16 ''Bearer '' @ (case WORKER_SECRET_KEY env of None \<Rightarrow> u16 ''undefined'' | Some k \<Rightarrow> k)"

type_synonym agent = "js_value \<Rightarrow> js_value \<Rightarrow> js_value \<Rightarrow> world \<Rightarrow> (js_error + ustring) \<times> world"

text \<open>
  \<^verbatim>\<open>
  try {
    const authHeader = req.headers['authorization'];
    if (authHeader !== `Bearer ${process.env.WORKER_SECRET_KEY}`) {
      return res.status(401).json({ error: 'Unauthorized' });
    }
    const { noteId, noteText, subjectName } = req.body;
    if (!noteId || !noteText || !subjectName) {
      return res.status(400).json({ error: 'Missing required parameters.' });
    }
    const publicUrl = await generateVideoAndUpload(supabaseAdmin, noteId, noteText, subjectName);
    res.status(200).json({ status: 'complete', videoUrl: publicUrl });
  } catch (error: any) {
    res.status(500).json({ error: 'Failed to generate video.', details: error.message });
  }\<close>
  The handler is given the imported function as \<open>agent\<close>, so that what it does with the
  function is stated for every function it could import; the one it does import is
  \<open>generateVideoAndUpload env\<close>.
\<close>

definition generate_video_handler :: "agent \<Rightarrow> env \<Rightarrow> request \<Rightarrow> world \<Rightarrow> response \<times> world" where
  "generate_video_handler agent env req w =
     (let authHeader = authorization req
      in if authHeader \<noteq> Some (expected_authorization env)
         then (Response 401 [(u16 ''error'', JStr (u16 ''Unauthorized''))], w)
         else (let noteId = field (body req) ''noteId'';
                   noteText = field (body req) ''noteText'';
                   subjectName = field (body req) ''subjectName''
               in if \<not> truthy noteId \<or> \<not> truthy noteText \<or> \<not> truthy subjectName
                  then (Response 400 [(u16 ''error'', JStr (u16 ''Missing required parameters.''))], w)
                  else (case agent noteId noteText subjectName w of
                          (Inr publicUrl, w1) \<Rightarrow>
                            (Response 200 [(u16 ''status'', JStr (u16 ''complete'')),
                                           (u16 ''videoUrl'', JStr publicUrl)], w1)
                        | (Inl error, w1) \<Rightarrow>
                            (Response 500 [(u16 ''error'', JStr (u16 ''Failed to generate video.'')),
                                           (u16 ''details'', JStr (message error))], w1))))"

text \<open>
  \<^verbatim>\<open>
  app.use(cors());
  app.use(express.json({ limit: '50mb' }));
  app.post('/generate-video', async (req, res) => { ... });\<close>
  The JSON body parser is registered before the route, so it reads the body of every
  request first. A body it refuses (malformed JSON with status 400, a body over the limit
  with status 413) ends the request there: the handler is not called, and the response has
  the status of the parser's error. Otherwise the handler runs on the parsed object, which
  is empty when the request carries no JSON body.
\<close>

datatype body_outcome = BodyRefused nat | BodyParsed "(ustring \<times> js_value) list"

record incoming =
  auth_header :: "ustring option"
  payload :: body_outcome

definition post_generate_video :: "agent \<Rightarrow> env \<Rightarrow> incoming \<Rightarrow> world \<Rightarrow> response \<times> world" where
  "post_generate_video agent env rq w =
     (case payload rq of
        BodyRefused st \<Rightarrow> (ErrorPage st, w)
      | BodyParsed obj \<Rightarrow>
          generate_video_handler agent env \<lparr>authorization = auth_header rq, body = obj\<rparr> w)"

section \<open>A sample environment\<close>

text \<open>
  An environment and a world on which the model is run: the image endpoint answers the
  first request with 503 and every later one with 200, every other service succeeds, and
  the finite numbers it meets are non-negative integers, printed in decimal.
\<close>

definition sample_env :: env where
  "sample_env =
     \<lparr>HUGGINGFACE_API_TOKEN = Some (u16 ''hf_token''),
      WORKER_SECRET_KEY = Some (u16 ''s3cret''),
      os_tmpdir = u16 ''/tmp'',
      mkdtemp_suffix = u16 ''a1B2c3'',
      convertAsStream = (\<lambda>n t. TtsStream ([1, 2] # [3] # []) None),
      fetch = (\<lambda>n p. if n = 0
                 then FetchResponse \<lparr>status = 503, bodyText = u16 ''loading'', bodyBytes = []\<rparr>
                 else FetchResponse \<lparr>status = 200, bodyText = [], bodyBytes = [9, 9]\<rparr>),
      ffprobe = (\<lambda>p c. ProbeMetadata (JNum (Fin 2))),
      spawn_ffprobe = (\<lambda>p. (Some 0, u16 ''N/A'')),
      ffmpeg_save = (\<lambda>fs i a. FfmpegEnded [7]),
      storage_fault = (\<lambda>k. None),
      getPublicUrl = (\<lambda>k. u16 ''https://cdn/'' @ k),
      path_resolve = (\<lambda>p. p),
      number_toString =
        (\<lambda>n. case n of NaN \<Rightarrow> u16 ''NaN'' | PosInf \<Rightarrow> u16 ''Infinity''
              | NegInf \<Rightarrow> u16 ''-Infinity'' | Fin r \<Rightarrow> dec (nat \<lfloor>r\<rfloor>)),
      parseFloat = (\<lambda>s. if s = u16 ''2.5'' then Fin 2.5 else NaN),
      object_toString = (\<lambda>v. u16 ''[object Object]''),
      prototype_member = (\<lambda>k. None),
      match_TypeError = (\<lambda>v. u16 ''noteText.match is not a function'')\<rparr>"

definition initial_world :: world where
  "initial_world = \<lparr>files = [], dirs = [], bucket = [], ttsCalls = 0, fetches = 0, trace = []\<rparr>"

lemmas model_defs =
  generateVideoAndUpload_def mkdtemp_def temp_dir_def try_body_def match_at_def is_terminator_def
  is_space_def trim_def scene_file_def path_join_def synthesize_speech_def tts_attempt_def
  synthesize_image_def do_fetch_def ok_def getAudioDuration_def or_zero_def number_truthy_def
  assemble_and_upload_def write_manifests_def imageListContent_def audioListContent_def
  file_line_def duration_line_def writeFile_def log_event_def uploadVideoToSupabase_def
  storage_upload_def video_key_def to_string_def rm_recursive_def inside_def Let_def dec.simps
  digit_def u16_def imagePrompt_def subjectStyle_def styleGuide_def new_Error_def

section \<open>Properties of the scene splitter\<close>

lemma terminator_not_space: "is_terminator c \<Longrightarrow> \<not> is_space c"
  by (auto simp: is_terminator_def is_space_def)

lemma sentence_content_none:
  "\<forall>x \<in> set s. \<not> is_terminator x \<Longrightarrow> sentence_content s = []"
  by (cases s) auto

lemma sentence_content_nonempty:
  "sentence_content s \<noteq> [] \<longleftrightarrow> (\<exists>x \<in> set s. is_terminator x)"
  by (cases s) auto

lemma sentence_content_append:
  "\<exists>x \<in> set b. is_terminator x \<Longrightarrow> sentence_content (a @ b) = a @ sentence_content b"
  by (induction a) auto

lemma sentence_content_marks:
  "\<forall>x \<in> set b. is_terminator x \<Longrightarrow> sentence_content (b @ r) = b @ sentence_content r"
  by (induction b) auto

lemma sentence_content_hd:
  "sentence_content r \<noteq> [] \<Longrightarrow> hd (sentence_content r) = hd r"
  by (cases r) (auto split: if_splits)

lemma dropWhile_sentence_content:
  "dropWhile is_terminator (sentence_content s) = sentence_content (dropWhile is_terminator s)"
  by (induction s) auto

lemma match_at_SomeD:
  assumes "match_at s = Some (m, rest)"
  shows "\<exists>run stops. m = run @ stops \<and> s = run @ stops @ rest \<and> run \<noteq> [] \<and> stops \<noteq> []
           \<and> (\<forall>x \<in> set run. \<not> is_terminator x) \<and> (\<forall>x \<in> set stops. is_terminator x)
           \<and> (rest = [] \<or> \<not> is_terminator (hd rest))"
proof -
  let ?run = "takeWhile (\<lambda>c. \<not> is_terminator c) s"
  let ?r = "dropWhile (\<lambda>c. \<not> is_terminator c) s"
  let ?stops = "takeWhile is_terminator ?r"
  from assms have m: "m = ?run @ ?stops" and rest: "rest = dropWhile is_terminator ?r"
    and ne: "?run \<noteq> []" "?stops \<noteq> []"
    by (auto simp: match_at_def Let_def split: if_splits)
  have "s = ?run @ ?stops @ rest"
    by (simp add: rest)
  moreover have "\<forall>x \<in> set ?run. \<not> is_terminator x"
    by (auto dest: set_takeWhileD)
  moreover have "\<forall>x \<in> set ?stops. is_terminator x"
    by (auto dest: set_takeWhileD)
  moreover have "rest = [] \<or> \<not> is_terminator (hd rest)"
    unfolding rest using hd_dropWhile [of is_terminator ?r] by blast
  ultimately show ?thesis
    using m ne by blast
qed

lemma match_at_NoneD:
  assumes "match_at (c # cs) = None"
  shows "is_terminator c \<or> (\<forall>x \<in> set (c # cs). \<not> is_terminator x)"
proof (cases "is_terminator c")
  case True
  then show ?thesis by simp
next
  case False
  let ?r = "dropWhile (\<lambda>c. \<not> is_terminator c) (c # cs)"
  from False assms have "takeWhile is_terminator ?r = []"
    by (auto simp: match_at_def Let_def split: if_splits)
  then have "?r = [] \<or> \<not> is_terminator (hd ?r)"
    by (cases ?r) (auto split: if_splits)
  moreover have "?r \<noteq> [] \<Longrightarrow> is_terminator (hd ?r)"
    using hd_dropWhile [of "\<lambda>c. \<not> is_terminator c" "c # cs"] by blast
  ultimately have "?r = []" by blast
  then show ?thesis
    by (simp only: dropWhile_eq_Nil_conv) blast
qed

lemma concat_match_all:
  "concat (match_all s) = dropWhile is_terminator (sentence_content s)"
proof (induction s rule: match_all.induct)
  case 1
  show ?case by simp
next
  case (2 c cs)
  show ?case
  proof (cases "match_at (c # cs)")
    case None
    from match_at_NoneD [OF None] show ?thesis
    proof
      assume "is_terminator c"
      then show ?thesis using None 2(1) [OF None] by simp
    next
      assume no: "\<forall>x \<in> set (c # cs). \<not> is_terminator x"
      then have "sentence_content (c # cs) = []" "sentence_content cs = []"
        by (auto intro: sentence_content_none)
      then show ?thesis using None 2(1) [OF None] by simp
    qed
  next
    case (Some p)
    obtain m rest where p: "p = (m, rest)" by (cases p)
    from match_at_SomeD [OF Some [unfolded p]] obtain run stops where
      m: "m = run @ stops" and s: "c # cs = run @ stops @ rest"
      and ne: "run \<noteq> []" "stops \<noteq> []"
      and run: "\<forall>x \<in> set run. \<not> is_terminator x"
      and stops: "\<forall>x \<in> set stops. is_terminator x"
      and rest: "rest = [] \<or> \<not> is_terminator (hd rest)"
      by blast
    have IH: "concat (match_all rest) = dropWhile is_terminator (sentence_content rest)"
      using 2(2) [OF Some p [symmetric]] .
    have keep: "dropWhile is_terminator (sentence_content rest) = sentence_content rest"
    proof (cases "sentence_content rest = []")
      case True
      then show ?thesis by simp
    next
      case False
      then have "rest \<noteq> []" by auto
      with rest False have "\<not> is_terminator (hd (sentence_content rest))"
        by (simp add: sentence_content_hd)
      with False show ?thesis by (cases "sentence_content rest") auto
    qed
    have "\<exists>x \<in> set (stops @ rest). is_terminator x"
      using ne stops by (cases stops) auto
    then have "sentence_content (c # cs) = run @ stops @ sentence_content rest"
      unfolding s using stops by (simp add: sentence_content_append sentence_content_marks)
    moreover have "dropWhile is_terminator (run @ stops @ sentence_content rest)
        = run @ stops @ sentence_content rest"
      using ne run by (cases run) auto
    ultimately show ?thesis
      using Some p m IH keep by simp
  qed
qed

lemma match_all_shape:
  "m \<in> set (match_all s) \<Longrightarrow>
     \<exists>run stops. m = run @ stops \<and> run \<noteq> [] \<and> stops \<noteq> []
        \<and> (\<forall>x \<in> set run. \<not> is_terminator x) \<and> (\<forall>x \<in> set stops. is_terminator x)"
proof (induction s rule: match_all.induct)
  case 1
  then show ?case by simp
next
  case (2 c cs)
  show ?case
  proof (cases "match_at (c # cs)")
    case None
    with 2(3) 2(1) [OF None] show ?thesis by simp
  next
    case (Some p)
    obtain m' rest where p: "p = (m', rest)" by (cases p)
    from 2(3) Some p have "m = m' \<or> m \<in> set (match_all rest)" by simp
    then show ?thesis
    proof
      assume "m = m'"
      with match_at_SomeD [OF Some [unfolded p]] show ?thesis by blast
    next
      assume "m \<in> set (match_all rest)"
      then show ?thesis using 2(2) [OF Some p [symmetric]] by blast
    qed
  qed
qed

lemma match_all_nonempty: "match_all s \<noteq> [] \<longleftrightarrow> has_sentence s"
proof -
  have "match_all s \<noteq> [] \<longleftrightarrow> concat (match_all s) \<noteq> []"
  proof
    assume "match_all s \<noteq> []"
    then obtain m ms where ms: "match_all s = m # ms" by (cases "match_all s") auto
    then have "m \<in> set (match_all s)" by simp
    from match_all_shape [OF this] have "m \<noteq> []" by auto
    with ms show "concat (match_all s) \<noteq> []" by simp
  qed auto
  also have "\<dots> \<longleftrightarrow> has_sentence s"
    by (simp only: concat_match_all dropWhile_sentence_content sentence_content_nonempty has_sentence_def)
  finally show ?thesis .
qed

lemma trim_match:
  assumes "m = run @ stops" "stops \<noteq> []" "\<forall>x \<in> set stops. is_terminator x"
  shows "m = takeWhile is_space m @ trim m"
proof -
  let ?d = "dropWhile is_space m"
  have last: "last m = last stops" "is_terminator (last stops)"
    using assms by auto
  have "?d \<noteq> []"
    using assms last terminator_not_space
    by (metis dropWhile_eq_Nil_conv last_in_set append_is_Nil_conv)
  moreover have "last ?d = last m"
    using calculation by (metis last_appendR takeWhile_dropWhile_id)
  ultimately have "\<not> is_space (hd (rev ?d))"
    using last terminator_not_space by (simp add: hd_rev)
  then have "dropWhile is_space (rev ?d) = rev ?d"
    using \<open>?d \<noteq> []\<close> by (cases "rev ?d") auto
  then have "trim m = ?d"
    by (simp add: trim_def)
  then show ?thesis by simp
qed

text \<open>
  C1, as the specification states it, fails on the program. The text \<open>.\<close> has a terminator
  and yields no scene, because a match needs a non-terminator before its terminators; and
  the terminators that lead the text \<open>?Hi.\<close> belong to its sentence content but to no
  scene.
\<close>

theorem scene_splitter_counterexample:
  "is_terminator 0x2E \<and> match_all [0x2E] = []
   \<and> match_all (u16 ''?Hi.'') = [u16 ''Hi.'']
   \<and> sentence_content (u16 ''?Hi.'') = u16 ''?Hi.''"
  by (simp add: match_at_def is_terminator_def u16_def)

text \<open>
  C1, amended. For every text in which a terminator follows the first non-terminator, the
  splitter yields a non-empty sequence of matches, in the order of the text. Their
  concatenation is the text up to and including its last terminator, without the
  terminators that lead the text. Trimming a match removes white space at its start only:
  each match is some white space followed by its trimmed scene.
\<close>

theorem scene_splitter_reconstructs:
  assumes "has_sentence noteText"
  shows "match_all noteText \<noteq> []
    \<and> concat (match_all noteText) = dropWhile is_terminator (sentence_content noteText)
    \<and> (\<forall>m \<in> set (match_all noteText). m = takeWhile is_space m @ trim m)"
proof (intro conjI ballI)
  show "match_all noteText \<noteq> []"
    using assms by (simp add: match_all_nonempty)
  show "concat (match_all noteText) = dropWhile is_terminator (sentence_content noteText)"
    by (rule concat_match_all)
next
  fix m
  assume "m \<in> set (match_all noteText)"
  from match_all_shape [OF this] obtain b t where "m = b @ t" "t \<noteq> []" "\<forall>x \<in> set t. is_terminator x"
    by blast
  then show "m = takeWhile is_space m @ trim m"
    by (rule trim_match)
qed

theorem scene_splitter_reconstructs_witness:
  "has_sentence (u16 ''Hi. Yo!'')
   \<and> match_all (u16 ''Hi. Yo!'') \<noteq> []
   \<and> concat (match_all (u16 ''Hi. Yo!'')) = u16 ''Hi. Yo!''
   \<and> list_all (\<lambda>m. m = takeWhile is_space m @ trim m) (match_all (u16 ''Hi. Yo!''))"
proof -
  have h: "has_sentence (u16 ''Hi. Yo!'')"
    by (simp add: has_sentence_def is_terminator_def u16_def)
  have c: "dropWhile is_terminator (sentence_content (u16 ''Hi. Yo!'')) = u16 ''Hi. Yo!''"
    by (simp add: is_terminator_def u16_def)
  show ?thesis
    using h c scene_splitter_reconstructs [OF h] by (simp add: list_all_iff)
qed

section \<open>Properties of the run\<close>

lemma trace_log_event: "trace (log_event e w) = trace w @ [e]"
  by (simp add: log_event_def)

lemma trace_writeFile: "trace (writeFile p c w) = trace w @ [WriteFile p c]"
  by (simp add: writeFile_def log_event_def)

lemma tts_attempt_trace:
  "tts_attempt env t p w = (r, w') \<Longrightarrow> \<exists>evs. trace w' = trace w @ evs"
  by (auto simp: tts_attempt_def Let_def log_event_def writeFile_def
      split: tts_outcome.splits option.splits if_splits)

lemma synthesize_speech_trace:
  "synthesize_speech env t p w = (r, w') \<Longrightarrow> \<exists>evs. trace w' = trace w @ evs"
  by (auto simp: synthesize_speech_def split: prod.splits sum.splits if_splits
      dest: tts_attempt_trace)

lemma synthesize_image_trace:
  "synthesize_image env tok subj t p w = (r, w') \<Longrightarrow> \<exists>evs. trace w' = trace w @ evs"
  by (auto simp: synthesize_image_def do_fetch_def Let_def log_event_def writeFile_def
      split: prod.splits fetch_outcome.splits if_splits)

lemma getAudioDuration_trace:
  "getAudioDuration env p w = (r, w') \<Longrightarrow> \<exists>evs. trace w' = trace w @ evs"
  by (auto simp: getAudioDuration_def log_event_def split: probe_outcome.splits)

lemma scene_loop_trace:
  "scene_loop env tok dir subj scenes i acc w = (r, w') \<Longrightarrow> \<exists>evs. trace w' = trace w @ evs"
proof (induction scenes arbitrary: i acc w)
  case Nil
  then show ?case by simp
next
  case (Cons scene scenes)
  let ?a = "scene_file dir i ''.mp3''" and ?im = "scene_file dir i ''.png''"
  obtain r1 w1 where s1: "synthesize_speech env (trim scene) ?a w = (r1, w1)"
    by (cases "synthesize_speech env (trim scene) ?a w")
  obtain e1 where t1: "trace w1 = trace w @ e1"
    using synthesize_speech_trace [OF s1] by blast
  show ?case
  proof (cases r1)
    case (Inl e)
    with Cons.prems s1 t1 show ?thesis by (auto simp: Let_def)
  next
    case (Inr u)
    obtain r2 w2 where s2: "synthesize_image env tok subj (trim scene) ?im w1 = (r2, w2)"
      by (cases "synthesize_image env tok subj (trim scene) ?im w1")
    obtain e2 where t2: "trace w2 = trace w1 @ e2"
      using synthesize_image_trace [OF s2] by blast
    show ?thesis
    proof (cases r2)
      case (Inl e)
      with Cons.prems s1 s2 t1 t2 Inr show ?thesis by (auto simp: Let_def)
    next
      case Inr2: (Inr u2)
      obtain r3 w3 where s3: "getAudioDuration env ?a w2 = (r3, w3)"
        by (cases "getAudioDuration env ?a w2")
      obtain e3 where t3: "trace w3 = trace w2 @ e3"
        using getAudioDuration_trace [OF s3] by blast
      show ?thesis
      proof (cases r3)
        case (Inl e)
        with Cons.prems s1 s2 s3 t1 t2 t3 Inr Inr2 show ?thesis by (auto simp: Let_def)
      next
        case Inr3: (Inr d)
        from Cons.prems s1 s2 s3 Inr Inr2 Inr3
        have "scene_loop env tok dir subj scenes (Suc i)
                (acc @ [\<lparr>audioPath = ?a, imagePath = ?im, duration = d\<rparr>]) w3 = (r, w')"
          by (simp add: Let_def)
        from Cons.IH [OF this] obtain e4 where "trace w' = trace w3 @ e4" by blast
        with t1 t2 t3 show ?thesis by simp
      qed
    qed
  qed
qed

lemma uploadVideoToSupabase_trace:
  "uploadVideoToSupabase env noteId v w = (r, w') \<Longrightarrow> \<exists>evs. trace w' = trace w @ evs"
  by (auto simp: uploadVideoToSupabase_def storage_upload_def Let_def log_event_def
      split: prod.splits option.splits if_splits)

lemma assemble_and_upload_trace:
  assumes "assemble_and_upload env dir noteId assets w = (r, w')"
  shows "\<exists>evs. trace w' = trace w @ evs"
proof (cases "ffmpeg_save env (files (write_manifests env dir assets w))
    (path_join dir (u16 ''imagelist.txt'')) (path_join dir (u16 ''audiolist.txt''))")
  case (FfmpegFailed err)
  with assms show ?thesis
    by (auto simp: assemble_and_upload_def Let_def write_manifests_def trace_writeFile trace_log_event)
next
  case (FfmpegEnded v)
  show ?thesis
  proof (cases "length v = 0")
    case True
    with assms FfmpegEnded show ?thesis
      by (auto simp: assemble_and_upload_def Let_def write_manifests_def trace_writeFile trace_log_event)
  next
    case False
    with assms FfmpegEnded obtain w3 where
      up: "uploadVideoToSupabase env noteId v w3 = (r, w')"
      and t3: "\<exists>evs. trace w3 = trace w @ evs"
      by (auto simp: assemble_and_upload_def Let_def write_manifests_def trace_writeFile trace_log_event)
    from uploadVideoToSupabase_trace [OF up] t3 show ?thesis by auto
  qed
qed

lemma try_body_trace:
  assumes "try_body env tok dir noteId noteText subj w = (r, w')"
  shows "\<exists>evs. trace w' = trace w @ evs"
proof (cases noteText)
  case (JStr str)
  show ?thesis
  proof (cases "match_all str = []")
    case True
    with assms JStr show ?thesis by (simp add: try_body_def)
  next
    case False
    obtain r1 w1 where l: "scene_loop env tok dir subj (match_all str) 0 [] w = (r1, w1)"
      by (cases "scene_loop env tok dir subj (match_all str) 0 [] w")
    from scene_loop_trace [OF l] obtain e1 where t1: "trace w1 = trace w @ e1" by blast
    show ?thesis
    proof (cases r1)
      case (Inl e)
      with assms JStr False l t1 show ?thesis by (auto simp: try_body_def)
    next
      case (Inr assets)
      with assms JStr False l have "assemble_and_upload env dir noteId assets w1 = (r, w')"
        by (simp add: try_body_def)
      from assemble_and_upload_trace [OF this] t1 show ?thesis by auto
    qed
  qed
qed (use assms in \<open>auto simp: try_body_def\<close>)

text \<open>
  C5. Every run of a loaded module, whatever its result (a URL, or the error of whichever
  step threw), makes the temporary directory first and removes it last: the trace of the
  run starts with the creation of the directory and ends with its recursive removal, and
  afterwards neither the directory nor any file inside it exists.
\<close>

theorem temp_dir_removed:
  assumes "module_loaded env"
    and "generateVideoAndUpload env noteId noteText subjectName w = (result, w')"
  shows "(\<exists>evs. trace w' = trace w @ Mkdtemp (temp_dir env) # evs @ [Rm (temp_dir env)])
    \<and> temp_dir env \<notin> set (dirs w')
    \<and> (\<forall>(p, c) \<in> set (files w'). \<not> inside (temp_dir env) p)"
proof -
  let ?d = "temp_dir env"
  let ?w1 = "log_event (Mkdtemp ?d) (w\<lparr>dirs := ?d # dirs w\<rparr>)"
  from assms(1) obtain token where token: "HUGGINGFACE_API_TOKEN env = Some token" "token \<noteq> []"
    by (auto simp: module_loaded_def split: option.splits)
  obtain r2 w2 where b: "try_body env token ?d noteId noteText subjectName ?w1 = (r2, w2)"
    by (cases "try_body env token ?d noteId noteText subjectName ?w1")
  from assms(2) token b have w': "w' = rm_recursive ?d w2"
    by (auto simp: generateVideoAndUpload_def mkdtemp_def temp_dir_def Let_def)
  from try_body_trace [OF b] obtain evs where "trace w2 = trace ?w1 @ evs" by blast
  then have "trace w' = trace w @ Mkdtemp ?d # evs @ [Rm ?d]"
    by (simp add: w' rm_recursive_def log_event_def)
  moreover have "?d \<notin> set (dirs w')"
    by (simp add: w' rm_recursive_def log_event_def inside_def)
  moreover have "\<forall>(p, c) \<in> set (files w'). \<not> inside ?d p"
    by (auto simp: w' rm_recursive_def log_event_def)
  ultimately show ?thesis by blast
qed

lemma match_all_no_terminator:
  assumes "\<forall>c \<in> set text. \<not> is_terminator c"
  shows "match_all text = []"
proof -
  have "\<not> has_sentence text"
    using assms by (auto simp: has_sentence_def dest: set_dropWhileD)
  then show ?thesis by (simp add: match_all_nonempty [symmetric])
qed

text \<open>
  C2. For every text without a sentence terminator the run of a loaded module fails with
  the error the specification calls \<open>EmptyInputError\<close>. Its only effects are the creation and the
  removal of the temporary directory: no request to either endpoint, no file written, no
  per-scene step, no upload.
\<close>

theorem no_terminator_fails_early:
  assumes "module_loaded env"
    and "\<forall>c \<in> set text. \<not> is_terminator c"
  shows "generateVideoAndUpload env noteId (JStr text) subjectName w =
           (Inl EmptyInputError,
            w\<lparr>files := filter (\<lambda>(p, _). \<not> inside (temp_dir env) p) (files w),
              dirs := filter (\<lambda>p. \<not> inside (temp_dir env) p) (dirs w),
              trace := trace w @ [Mkdtemp (temp_dir env), Rm (temp_dir env)]\<rparr>)"
  using assms(1) match_all_no_terminator [OF assms(2)]
  by (auto simp: module_loaded_def generateVideoAndUpload_def mkdtemp_def temp_dir_def
      try_body_def Let_def rm_recursive_def log_event_def inside_def split: option.splits)


theorem no_terminator_fails_early_witness:
  "module_loaded sample_env
   \<and> list_all (\<lambda>c. \<not> is_terminator c) (u16 ''hello world'')
   \<and> generateVideoAndUpload sample_env (JNum (Fin 7)) (JStr (u16 ''hello world''))
        (JStr (u16 ''Physics'')) initial_world
      = (Inl EmptyInputError,
         initial_world\<lparr>trace := [Mkdtemp (u16 ''/tmp/ai-video-a1B2c3''),
                                  Rm (u16 ''/tmp/ai-video-a1B2c3'')]\<rparr>)"
proof -
  have tok: "module_loaded sample_env"
    by (simp add: module_loaded_def sample_env_def u16_def)
  have none: "\<forall>c \<in> set (u16 ''hello world''). \<not> is_terminator c"
    by (simp add: u16_def is_terminator_def)
  have dir: "temp_dir sample_env = u16 ''/tmp/ai-video-a1B2c3''"
    by (simp add: temp_dir_def path_join_def sample_env_def u16_def)
  show ?thesis
    using tok none
      no_terminator_fails_early [OF tok none, of "JNum (Fin 7)" "JStr (u16 ''Physics'')" initial_world]
    by (simp add: dir list_all_iff initial_world_def)
qed

theorem temp_dir_removed_witness:
  "module_loaded sample_env
   \<and> fst (generateVideoAndUpload
             (sample_env\<lparr>convertAsStream := \<lambda>n t. TtsRejected (JsError (u16 ''bad key'') (Some 401))\<rparr>)
             (JNum (Fin 7)) (JStr (u16 ''Hi.'')) (JStr (u16 ''Physics'')) initial_world)
       = Inl TtsAuthError
   \<and> dirs (snd (generateVideoAndUpload
             (sample_env\<lparr>convertAsStream := \<lambda>n t. TtsRejected (JsError (u16 ''bad key'') (Some 401))\<rparr>)
             (JNum (Fin 7)) (JStr (u16 ''Hi.'')) (JStr (u16 ''Physics'')) initial_world)) = []
   \<and> fst (generateVideoAndUpload sample_env (JNum (Fin 7)) (JStr (u16 ''Hi.''))
             (JStr (u16 ''Physics'')) initial_world)
       = Inr (u16 ''https://cdn/note-videos/7.mp4'')
   \<and> u16 ''/tmp/ai-video-a1B2c3''
       \<notin> set (dirs (snd (generateVideoAndUpload sample_env (JNum (Fin 7)) (JStr (u16 ''Hi.''))
             (JStr (u16 ''Physics'')) initial_world)))
   \<and> list_all (\<lambda>(p, c). \<not> inside (u16 ''/tmp/ai-video-a1B2c3'') p)
       (files (snd (generateVideoAndUpload sample_env (JNum (Fin 7)) (JStr (u16 ''Hi.''))
             (JStr (u16 ''Physics'')) initial_world)))"
proof -
  let ?bad = "sample_env\<lparr>convertAsStream := \<lambda>n t. TtsRejected (JsError (u16 ''bad key'') (Some 401))\<rparr>"
  let ?run = "\<lambda>env. generateVideoAndUpload env (JNum (Fin 7)) (JStr (u16 ''Hi.''))
     (JStr (u16 ''Physics'')) initial_world"
  have tok: "module_loaded sample_env" "module_loaded ?bad"
    by (simp_all add: module_loaded_def sample_env_def u16_def)
  have dir: "temp_dir sample_env = u16 ''/tmp/ai-video-a1B2c3''"
    "temp_dir ?bad = u16 ''/tmp/ai-video-a1B2c3''"
    by (simp_all add: temp_dir_def path_join_def sample_env_def u16_def)
  have failed: "fst (?run ?bad) = Inl TtsAuthError"
    by (simp add: model_defs sample_env_def initial_world_def)
  have succ: "fst (?run sample_env) = Inr (u16 ''https://cdn/note-videos/7.mp4'')"
    by (simp add: model_defs sample_env_def initial_world_def)
  have "dirs (snd (?run ?bad)) = []"
    by (simp add: model_defs sample_env_def initial_world_def)
  with failed succ tok(1)
    temp_dir_removed [OF tok(1) surjective_pairing, of "JNum (Fin 7)" "JStr (u16 ''Hi.'')"
      "JStr (u16 ''Physics'')" initial_world]
    temp_dir_removed [OF tok(2) surjective_pairing, of "JNum (Fin 7)" "JStr (u16 ''Hi.'')"
      "JStr (u16 ''Physics'')" initial_world]
  show ?thesis
    by (simp add: dir list_all_iff)
qed

section \<open>Properties of the image synthesizer\<close>

text \<open>
  C3. The image step sends at most two requests. When the first response has status 503,
  the step waits 20000 milliseconds and sends exactly one more request; the second response
  decides the result. When the first response has any other status, no second request is
  sent. A response that decides the result and is no success makes the step fail with the
  error whose message carries its status and its body.
\<close>

theorem image_retry_policy:
  assumes "synthesize_image env token subjectName sceneText img w = (r, w')"
    and "prompt = imagePrompt env subjectName sceneText"
  shows "fetches w' \<le> fetches w + 2
    \<and> (\<forall>first. fetch env (fetches w) prompt = FetchResponse first \<longrightarrow>
         (if status first = 503
          then fetches w' = fetches w + 2
             \<and> (\<exists>rest. trace w' = trace w @ [Fetch token prompt, Sleep 20000, Fetch token prompt] @ rest
                   \<and> (rest = [] \<or> (\<exists>c. rest = [WriteFile img c])))
             \<and> (\<forall>second. fetch env (Suc (fetches w)) prompt = FetchResponse second \<longrightarrow>
                   r = (if ok second then Inr ()
                        else Inl (ImageCallError (status second) (bodyText second))))
          else fetches w' = fetches w + 1
             \<and> (\<exists>rest. trace w' = trace w @ [Fetch token prompt] @ rest
                   \<and> (rest = [] \<or> (\<exists>c. rest = [WriteFile img c])))
             \<and> r = (if ok first then Inr ()
                    else Inl (ImageCallError (status first) (bodyText first)))))"
  using assms
  by (auto simp: synthesize_image_def do_fetch_def Let_def log_event_def writeFile_def ok_def
      split: fetch_outcome.splits if_splits)

theorem image_retry_policy_witness:
  "fetch sample_env 0 (imagePrompt sample_env (JStr (u16 ''Physics'')) (u16 ''Hi.''))
     = FetchResponse \<lparr>status = 503, bodyText = u16 ''loading'', bodyBytes = []\<rparr>
   \<and> synthesize_image sample_env (u16 ''hf_token'') (JStr (u16 ''Physics'')) (u16 ''Hi.'')
        (u16 ''/tmp/d/scene_0.png'') initial_world
      = (Inr (),
         initial_world
           \<lparr>files := [(u16 ''/tmp/d/scene_0.png'', Bytes [9, 9])],
            fetches := 2,
            trace := [Fetch (u16 ''hf_token'') (imagePrompt sample_env (JStr (u16 ''Physics'')) (u16 ''Hi.'')),
                      Sleep 20000,
                      Fetch (u16 ''hf_token'') (imagePrompt sample_env (JStr (u16 ''Physics'')) (u16 ''Hi.'')),
                      WriteFile (u16 ''/tmp/d/scene_0.png'') (Bytes [9, 9])]\<rparr>)
   \<and> synthesize_image
        (sample_env\<lparr>fetch := \<lambda>n p. FetchResponse \<lparr>status = 503, bodyText = u16 ''loading'', bodyBytes = []\<rparr>\<rparr>)
        (u16 ''hf_token'') (JStr (u16 ''Physics'')) (u16 ''Hi.'') (u16 ''/tmp/d/scene_0.png'') initial_world
      = (Inl (new_Error (u16 ''Hugging Face API failed with status 503: loading'')),
         initial_world
           \<lparr>fetches := 2,
            trace := [Fetch (u16 ''hf_token'') (imagePrompt sample_env (JStr (u16 ''Physics'')) (u16 ''Hi.'')),
                      Sleep 20000,
                      Fetch (u16 ''hf_token'') (imagePrompt sample_env (JStr (u16 ''Physics'')) (u16 ''Hi.''))]\<rparr>)"
proof -
  let ?busy = "sample_env\<lparr>fetch := \<lambda>n p. FetchResponse \<lparr>status = 503, bodyText = u16 ''loading'', bodyBytes = []\<rparr>\<rparr>"
  let ?P = "imagePrompt sample_env (JStr (u16 ''Physics'')) (u16 ''Hi.'')"
  have P: "imagePrompt ?busy (JStr (u16 ''Physics'')) (u16 ''Hi.'') = ?P"
    by (simp add: imagePrompt_def subjectStyle_def to_string_def sample_env_def styleGuide_def u16_def)
  have first: "fetch sample_env 0 ?P = FetchResponse \<lparr>status = 503, bodyText = u16 ''loading'', bodyBytes = []\<rparr>"
    by (simp add: sample_env_def)
  have msg: "ImageCallError 503 (u16 ''loading'') = new_Error (u16 ''Hugging Face API failed with status 503: loading'')"
    by (simp add: ImageCallError_def dec.simps digit_def u16_def)
  have w0: "fetches initial_world = 0" "trace initial_world = []" "files initial_world = []"
    by (simp_all add: initial_world_def)
  note a = image_retry_policy [OF surjective_pairing refl, of sample_env "u16 ''hf_token''"
      "JStr (u16 ''Physics'')" "u16 ''Hi.''" "u16 ''/tmp/d/scene_0.png''" initial_world]
  note b = image_retry_policy [OF surjective_pairing refl, of ?busy "u16 ''hf_token''"
      "JStr (u16 ''Physics'')" "u16 ''Hi.''" "u16 ''/tmp/d/scene_0.png''" initial_world]
  have run_a: "synthesize_image sample_env (u16 ''hf_token'') (JStr (u16 ''Physics'')) (u16 ''Hi.'')
        (u16 ''/tmp/d/scene_0.png'') initial_world
      = (Inr (),
         initial_world
           \<lparr>files := [(u16 ''/tmp/d/scene_0.png'', Bytes [9, 9])],
            fetches := 2,
            trace := [Fetch (u16 ''hf_token'') ?P, Sleep 20000, Fetch (u16 ''hf_token'') ?P,
                      WriteFile (u16 ''/tmp/d/scene_0.png'') (Bytes [9, 9])]\<rparr>)"
    by (simp add: synthesize_image_def do_fetch_def Let_def log_event_def writeFile_def ok_def
        sample_env_def initial_world_def)
  have run_b: "synthesize_image ?busy (u16 ''hf_token'') (JStr (u16 ''Physics'')) (u16 ''Hi.'')
        (u16 ''/tmp/d/scene_0.png'') initial_world
      = (Inl (ImageCallError 503 (u16 ''loading'')),
         initial_world
           \<lparr>fetches := 2,
            trace := [Fetch (u16 ''hf_token'') ?P, Sleep 20000, Fetch (u16 ''hf_token'') ?P]\<rparr>)"
    using P
    by (simp add: synthesize_image_def do_fetch_def Let_def log_event_def writeFile_def ok_def
        initial_world_def)
  show ?thesis
    using a b first run_a run_b by (simp add: msg)
qed

section \<open>Properties of the speech synthesizer\<close>

text \<open>
  C7. The speech step concatenates the chunks of the stream into one buffer. When the
  buffer is empty the step fails, and writes no file; otherwise it writes the buffer to the
  audio file. When the endpoint rejects the request with status 401 the step fails with
  the error the specification calls \<open>TtsAuthError\<close>, which differs from the error of every
  other failure.
\<close>

theorem speech_synthesizer_errors:
  assumes "synthesize_speech env sceneText audio w = (r, w')"
  shows "(\<forall>chunks. convertAsStream env (ttsCalls w) sceneText = TtsStream chunks None \<longrightarrow>
           (if concat chunks = []
            then r = Inl (TtsCallError (message EmptyStreamError))
               \<and> files w' = files w
               \<and> trace w' = trace w @ [TtsRequest sceneText]
            else r = Inr ()
               \<and> files w' = (audio, Bytes (concat chunks)) # filter (\<lambda>(q, _). q \<noteq> audio) (files w)
               \<and> trace w' = trace w @ [TtsRequest sceneText, WriteFile audio (Bytes (concat chunks))]))
    \<and> (\<forall>e. convertAsStream env (ttsCalls w) sceneText = TtsRejected e
            \<or> (\<exists>chunks. convertAsStream env (ttsCalls w) sceneText = TtsStream chunks (Some e)) \<longrightarrow>
           r = (if statusCode e = Some 401 then Inl TtsAuthError
                else Inl (TtsCallError (message e)))
         \<and> files w' = files w
         \<and> trace w' = trace w @ [TtsRequest sceneText])
    \<and> (\<forall>m. TtsAuthError \<noteq> TtsCallError m)"
  using assms
  by (auto simp: synthesize_speech_def tts_attempt_def Let_def log_event_def writeFile_def
      EmptyStreamError_def TtsAuthError_def TtsCallError_def new_Error_def u16_def
      split: tts_outcome.splits option.splits if_splits prod.splits sum.splits)

theorem speech_synthesizer_errors_witness:
  "synthesize_speech (sample_env\<lparr>convertAsStream := \<lambda>n t. TtsStream ([] # [] # []) None\<rparr>)
       (u16 ''Hi.'') (u16 ''/tmp/d/scene_0.mp3'') initial_world
     = (Inl (new_Error (u16 ''ElevenLabs SDK failed: ElevenLabs SDK returned an empty audio stream.'')),
        initial_world\<lparr>ttsCalls := 1, trace := [TtsRequest (u16 ''Hi.'')]\<rparr>)
   \<and> synthesize_speech
       (sample_env\<lparr>convertAsStream := \<lambda>n t. TtsRejected (JsError (u16 ''bad key'') (Some 401))\<rparr>)
       (u16 ''Hi.'') (u16 ''/tmp/d/scene_0.mp3'') initial_world
     = (Inl TtsAuthError, initial_world\<lparr>ttsCalls := 1, trace := [TtsRequest (u16 ''Hi.'')]\<rparr>)
   \<and> synthesize_speech sample_env (u16 ''Hi.'') (u16 ''/tmp/d/scene_0.mp3'') initial_world
     = (Inr (),
        initial_world
          \<lparr>files := [(u16 ''/tmp/d/scene_0.mp3'', Bytes [1, 2, 3])],
           ttsCalls := 1,
           trace := [TtsRequest (u16 ''Hi.''),
                     WriteFile (u16 ''/tmp/d/scene_0.mp3'') (Bytes [1, 2, 3])]\<rparr>)"
proof -
  let ?silent = "sample_env\<lparr>convertAsStream := \<lambda>n t. TtsStream ([] # [] # []) None\<rparr>"
  let ?denied = "sample_env\<lparr>convertAsStream := \<lambda>n t. TtsRejected (JsError (u16 ''bad key'') (Some 401))\<rparr>"
  note a = speech_synthesizer_errors [where env = ?silent and sceneText = "u16 ''Hi.''"
      and audio = "u16 ''/tmp/d/scene_0.mp3''" and w = initial_world, OF surjective_pairing]
  note b = speech_synthesizer_errors [where env = ?denied and sceneText = "u16 ''Hi.''"
      and audio = "u16 ''/tmp/d/scene_0.mp3''" and w = initial_world, OF surjective_pairing]
  have "synthesize_speech ?silent (u16 ''Hi.'') (u16 ''/tmp/d/scene_0.mp3'') initial_world
     = (Inl (new_Error (u16 ''ElevenLabs SDK failed: ElevenLabs SDK returned an empty audio stream.'')),
        initial_world\<lparr>ttsCalls := 1, trace := [TtsRequest (u16 ''Hi.'')]\<rparr>)"
    by (simp add: synthesize_speech_def tts_attempt_def Let_def log_event_def writeFile_def
        sample_env_def initial_world_def TtsCallError_def EmptyStreamError_def new_Error_def u16_def)
  moreover have "synthesize_speech ?denied (u16 ''Hi.'') (u16 ''/tmp/d/scene_0.mp3'') initial_world
     = (Inl TtsAuthError, initial_world\<lparr>ttsCalls := 1, trace := [TtsRequest (u16 ''Hi.'')]\<rparr>)"
    by (simp add: synthesize_speech_def tts_attempt_def Let_def log_event_def writeFile_def
        sample_env_def initial_world_def)
  moreover have "synthesize_speech sample_env (u16 ''Hi.'') (u16 ''/tmp/d/scene_0.mp3'') initial_world
     = (Inr (),
        initial_world
          \<lparr>files := [(u16 ''/tmp/d/scene_0.mp3'', Bytes [1, 2, 3])],
           ttsCalls := 1,
           trace := [TtsRequest (u16 ''Hi.''),
                     WriteFile (u16 ''/tmp/d/scene_0.mp3'') (Bytes [1, 2, 3])]\<rparr>)"
    by (simp add: synthesize_speech_def tts_attempt_def Let_def log_event_def writeFile_def
        sample_env_def initial_world_def)
  ultimately show ?thesis
    using a b by simp
qed

section \<open>Properties of the duration prober\<close>

text \<open>
  The prober that starts the child process fails exactly when the exit code is not 0, with
  the error that names the code; when the code is 0 and the output does not parse, its
  result is 0.
\<close>

lemma spawn_prober_contract:
  "((\<exists>e. getAudioDuration_spawn env p = Inl e) \<longleftrightarrow> fst (spawn_ffprobe env p) \<noteq> Some 0)
   \<and> (fst (spawn_ffprobe env p) \<noteq> Some 0 \<longrightarrow>
        getAudioDuration_spawn env p = Inl (ProbeError (fst (spawn_ffprobe env p))))
   \<and> (fst (spawn_ffprobe env p) = Some 0 \<longrightarrow>
        getAudioDuration_spawn env p =
          Inr (if isNaN (parseFloat env (trim (snd (spawn_ffprobe env p)))) then Fin 0
               else parseFloat env (trim (snd (spawn_ffprobe env p)))))"
  by (auto simp: getAudioDuration_spawn_def Let_def split: prod.splits)

text \<open>
  The prober of the pipeline fails exactly when the callback receives an error. When it
  does not, the result is the duration the library reports if that value is truthy, and 0
  otherwise: a duration that is absent, \<open>NaN\<close> or 0 becomes 0, and a non-empty string
  stays the string.
\<close>

lemma callback_prober_contract:
  "((\<exists>e. fst (getAudioDuration env p w) = Inl e)
      \<longleftrightarrow> (\<exists>err. ffprobe env p (map_of (files w) p) = ProbeFailed err))
   \<and> (\<forall>d. ffprobe env p (map_of (files w) p) = ProbeMetadata d \<longrightarrow>
        fst (getAudioDuration env p w) = Inr (if truthy d then d else JNum (Fin 0)))"
  by (auto simp: getAudioDuration_def or_zero_def split: probe_outcome.splits)

text \<open>
  C6 fails on the prober of the pipeline. When the probe succeeds and reports the duration
  \<open>N/A\<close>, which is no number, \<open>getAudioDuration\<close> of \<open>videoAgent.ts\<close> resolves to the
  string \<open>N/A\<close>, neither to 0 nor to an error, and the image list then holds the line
  \<open>duration N/A\<close>. The prober that starts the child process returns 0 on the same output.
\<close>

theorem callback_prober_keeps_unparsable_duration:
  "fst (getAudioDuration (sample_env\<lparr>ffprobe := \<lambda>p c. ProbeMetadata (JStr (u16 ''N/A''))\<rparr>)
          (u16 ''/tmp/d/scene_0.mp3'') initial_world) = Inr (JStr (u16 ''N/A''))
   \<and> duration_line sample_env (JStr (u16 ''N/A'')) = u16 ''duration N/A''
   \<and> spawn_ffprobe sample_env (u16 ''/tmp/d/scene_0.mp3'') = (Some 0, u16 ''N/A'')
   \<and> getAudioDuration_spawn sample_env (u16 ''/tmp/d/scene_0.mp3'') = Inr (Fin 0)"
  by (simp add: getAudioDuration_def or_zero_def duration_line_def to_string_def
      getAudioDuration_spawn_def sample_env_def isNaN_def trim_def is_space_def u16_def)

section \<open>Properties of the storage publisher\<close>

lemma map_of_filter_key:
  "map_of (filter (\<lambda>(k, _). k \<noteq> key) xs) k' = (if k' = key then None else map_of xs k')"
  by (induction xs) auto

text \<open>
  C9. The publisher uploads under the key \<open>note-videos/<noteId>.mp4\<close>, asking the service
  to overwrite. Unless the service itself reports a fault, publishing twice for the same
  note succeeds twice with the public URL of the key, the object at the key is then the one
  uploaded last, it is the only object at the key, and no other key changed. An upload that
  asks to overwrite fails only with a fault of the service, never because the key is taken.
\<close>

theorem storage_publisher_overwrites:
  assumes "storage_fault env (video_key env noteId) = None"
    and "key = video_key env noteId"
    and "uploadVideoToSupabase env noteId older w = (r1, w1)"
    and "uploadVideoToSupabase env noteId newer w1 = (r2, w2)"
  shows "key = u16 ''note-videos/'' @ to_string env noteId @ u16 ''.mp4''
    \<and> r1 = Inr (getPublicUrl env key) \<and> map_of (bucket w1) key = Some older
    \<and> r2 = Inr (getPublicUrl env key) \<and> map_of (bucket w2) key = Some newer
    \<and> length (filter (\<lambda>(k, _). k = key) (bucket w2)) = 1
    \<and> (\<forall>k. k \<noteq> key \<longrightarrow> map_of (bucket w2) k = map_of (bucket w) k)
    \<and> (\<forall>k d w0. fst (storage_upload env k d True w0) = storage_fault env k)"
proof -
  have w1: "r1 = Inr (getPublicUrl env key)"
    "bucket w1 = (key, older) # filter (\<lambda>(k, _). k \<noteq> key) (bucket w)"
    using assms(1,2,3)
    by (auto simp: uploadVideoToSupabase_def storage_upload_def Let_def log_event_def)
  have w2: "r2 = Inr (getPublicUrl env key)"
    "bucket w2 = (key, newer) # filter (\<lambda>(k, _). k \<noteq> key) (bucket w1)"
    using assms(1,2,4)
    by (auto simp: uploadVideoToSupabase_def storage_upload_def Let_def log_event_def)
  have "\<forall>k d w0. fst (storage_upload env k d True w0) = storage_fault env k"
    by (auto simp: storage_upload_def Let_def split: option.splits)
  moreover have "key = u16 ''note-videos/'' @ to_string env noteId @ u16 ''.mp4''"
    by (simp add: assms(2) video_key_def)
  ultimately show ?thesis
    using w1 w2 by (auto simp: map_of_filter_key filter_empty_conv)
qed

theorem storage_publisher_overwrites_witness:
  "storage_fault sample_env (video_key sample_env (JNum (Fin 7))) = None
   \<and> video_key sample_env (JNum (Fin 7)) = u16 ''note-videos/7.mp4''
   \<and> fst (uploadVideoToSupabase sample_env (JNum (Fin 7)) [1, 2] initial_world)
       = Inr (u16 ''https://cdn/note-videos/7.mp4'')
   \<and> uploadVideoToSupabase sample_env (JNum (Fin 7)) [3]
        (snd (uploadVideoToSupabase sample_env (JNum (Fin 7)) [1, 2] initial_world))
      = (Inr (u16 ''https://cdn/note-videos/7.mp4''),
         initial_world
           \<lparr>bucket := [(u16 ''note-videos/7.mp4'', [3])],
            trace := [StorageUpload (u16 ''note-videos/7.mp4'') True,
                      StorageUpload (u16 ''note-videos/7.mp4'') True]\<rparr>)"
proof -
  have ok: "storage_fault sample_env (video_key sample_env (JNum (Fin 7))) = None"
    by (simp add: sample_env_def)
  have key: "video_key sample_env (JNum (Fin 7)) = u16 ''note-videos/7.mp4''"
    by (simp add: video_key_def to_string_def sample_env_def dec.simps digit_def u16_def)
  have url: "getPublicUrl sample_env (u16 ''note-videos/7.mp4'') = u16 ''https://cdn/note-videos/7.mp4''"
    by (simp add: sample_env_def u16_def)
  note t = storage_publisher_overwrites [OF ok refl surjective_pairing surjective_pairing,
      of "[1, 2]" initial_world "[3]"]
  have "snd (uploadVideoToSupabase sample_env (JNum (Fin 7)) [3]
        (snd (uploadVideoToSupabase sample_env (JNum (Fin 7)) [1, 2] initial_world)))
      = initial_world
           \<lparr>bucket := [(u16 ''note-videos/7.mp4'', [3])],
            trace := [StorageUpload (u16 ''note-videos/7.mp4'') True,
                      StorageUpload (u16 ''note-videos/7.mp4'') True]\<rparr>"
    using ok
    by (simp add: uploadVideoToSupabase_def storage_upload_def Let_def log_event_def key
        initial_world_def)
  with t ok show ?thesis
    by (simp add: key url prod_eq_iff)
qed

section \<open>Properties of the manifests\<close>










section \<open>Properties of the request gateway\<close>

text \<open>
  C8, as stated, fails on the program: the body parser runs before the handler, so a request
  with a malformed body and without the right header is answered by the parser with 400,
  not by the handler with 401.
\<close>

theorem gateway_parser_counterexample:
  "auth_header \<lparr>auth_header = None, payload = BodyRefused 400\<rparr> \<noteq> Some (expected_authorization sample_env)
   \<and> post_generate_video (generateVideoAndUpload sample_env) sample_env
        \<lparr>auth_header = None, payload = BodyRefused 400\<rparr> initial_world
      = (ErrorPage 400, initial_world)"
  by (simp add: post_generate_video_def)

text \<open>
  C8, amended. A request whose body the JSON parser refuses is answered with the status of
  the parser's error, whatever its header, and nothing else happens. For every request whose
  body the parser accepts: the handler compares the \<open>Authorization\<close> header with
  \<open>Bearer <secret>\<close> first, and on a mismatch the response is 401, whatever the body and
  the agent are, and the world is untouched. On a match, a body that lacks one of the three
  fields gets 400. When all three fields pass the check, the agent runs: its URL is
  returned with 200 and the status \<open>complete\<close>, its error with 500, the generic message
  and the message of the error.
\<close>

theorem gateway_responses:
  "(\<forall>st. payload rq = BodyRefused st \<longrightarrow>
      post_generate_video agent env rq w = (ErrorPage st, w))
   \<and> (\<forall>obj. payload rq = BodyParsed obj \<longrightarrow>
        (auth_header rq \<noteq> Some (expected_authorization env) \<longrightarrow>
           post_generate_video agent env rq w
             = (Response 401 [(u16 ''error'', JStr (u16 ''Unauthorized''))], w))
      \<and> (auth_header rq = Some (expected_authorization env) \<longrightarrow>
           (map_of obj (u16 ''noteId'') = None \<or> map_of obj (u16 ''noteText'') = None
              \<or> map_of obj (u16 ''subjectName'') = None \<longrightarrow>
            post_generate_video agent env rq w
              = (Response 400 [(u16 ''error'', JStr (u16 ''Missing required parameters.''))], w))
         \<and> (truthy (field obj ''noteId'') \<and> truthy (field obj ''noteText'')
              \<and> truthy (field obj ''subjectName'') \<longrightarrow>
            (case agent (field obj ''noteId'') (field obj ''noteText'')
                    (field obj ''subjectName'') w of
               (Inr publicUrl, w1) \<Rightarrow>
                 post_generate_video agent env rq w
                   = (Response 200 [(u16 ''status'', JStr (u16 ''complete'')),
                                    (u16 ''videoUrl'', JStr publicUrl)], w1)
             | (Inl error, w1) \<Rightarrow>
                 post_generate_video agent env rq w
                   = (Response 500 [(u16 ''error'', JStr (u16 ''Failed to generate video.'')),
                                    (u16 ''details'', JStr (message error))], w1)))))"
  by (auto simp: post_generate_video_def generate_video_handler_def field_def Let_def
      split: prod.splits sum.splits)

theorem gateway_responses_witness:
  "post_generate_video (generateVideoAndUpload sample_env) sample_env
      \<lparr>auth_header = Some (u16 ''Bearer s3cret''), payload = BodyRefused 413\<rparr> initial_world
     = (ErrorPage 413, initial_world)
   \<and> post_generate_video (generateVideoAndUpload sample_env) sample_env
      \<lparr>auth_header = Some (u16 ''Bearer wrong''),
       payload = BodyParsed [(u16 ''noteId'', JNum (Fin 7)), (u16 ''noteText'', JStr (u16 ''Hi.'')),
               (u16 ''subjectName'', JStr (u16 ''Physics''))]\<rparr> initial_world
     = (Response 401 [(u16 ''error'', JStr (u16 ''Unauthorized''))], initial_world)
   \<and> post_generate_video (generateVideoAndUpload sample_env) sample_env
      \<lparr>auth_header = Some (u16 ''Bearer s3cret''),
       payload = BodyParsed [(u16 ''noteId'', JNum (Fin 7)),
                             (u16 ''subjectName'', JStr (u16 ''Physics''))]\<rparr>
      initial_world
     = (Response 400 [(u16 ''error'', JStr (u16 ''Missing required parameters.''))], initial_world)
   \<and> fst (post_generate_video (generateVideoAndUpload sample_env) sample_env
      \<lparr>auth_header = Some (u16 ''Bearer s3cret''),
       payload = BodyParsed [(u16 ''noteId'', JNum (Fin 7)), (u16 ''noteText'', JStr (u16 ''Hi.'')),
               (u16 ''subjectName'', JStr (u16 ''Physics''))]\<rparr> initial_world)
     = Response 200 [(u16 ''status'', JStr (u16 ''complete'')),
                     (u16 ''videoUrl'', JStr (u16 ''https://cdn/note-videos/7.mp4''))]
   \<and> fst (post_generate_video (generateVideoAndUpload sample_env) sample_env
      \<lparr>auth_header = Some (u16 ''Bearer s3cret''),
       payload = BodyParsed [(u16 ''noteId'', JNum (Fin 7)), (u16 ''noteText'', JStr (u16 ''hello world'')),
               (u16 ''subjectName'', JStr (u16 ''Physics''))]\<rparr> initial_world)
     = Response 500 [(u16 ''error'', JStr (u16 ''Failed to generate video.'')),
                     (u16 ''details'', JStr (u16 ''Could not break note into scenes.''))]"
proof -
  let ?agent = "generateVideoAndUpload sample_env"
  let ?full = "\<lambda>t. BodyParsed [(u16 ''noteId'', JNum (Fin 7)), (u16 ''noteText'', JStr t),
               (u16 ''subjectName'', JStr (u16 ''Physics''))]"
  let ?large = "\<lparr>auth_header = Some (u16 ''Bearer s3cret''), payload = BodyRefused 413\<rparr>"
  let ?denied = "\<lparr>auth_header = Some (u16 ''Bearer wrong''), payload = ?full (u16 ''Hi.'')\<rparr>"
  let ?partial = "\<lparr>auth_header = Some (u16 ''Bearer s3cret''),
       payload = BodyParsed [(u16 ''noteId'', JNum (Fin 7)),
                             (u16 ''subjectName'', JStr (u16 ''Physics''))]\<rparr>"
  let ?good = "\<lparr>auth_header = Some (u16 ''Bearer s3cret''), payload = ?full (u16 ''Hi.'')\<rparr>"
  let ?bad = "\<lparr>auth_header = Some (u16 ''Bearer s3cret''), payload = ?full (u16 ''hello world'')\<rparr>"
  have auth: "expected_authorization sample_env = u16 ''Bearer s3cret''"
    by (simp add: expected_authorization_def sample_env_def u16_def)
  have run_good: "fst (?agent (JNum (Fin 7)) (JStr (u16 ''Hi.'')) (JStr (u16 ''Physics'')) initial_world)
      = Inr (u16 ''https://cdn/note-videos/7.mp4'')"
    by (simp add: model_defs sample_env_def initial_world_def)
  have run_bad: "fst (?agent (JNum (Fin 7)) (JStr (u16 ''hello world'')) (JStr (u16 ''Physics'')) initial_world)
      = Inl EmptyInputError"
    by (simp add: model_defs sample_env_def initial_world_def)
  have r413: "post_generate_video ?agent sample_env ?large initial_world
     = (ErrorPage 413, initial_world)"
    using gateway_responses [of ?large ?agent sample_env initial_world]
    by simp
  have r401: "post_generate_video ?agent sample_env ?denied initial_world
     = (Response 401 [(u16 ''error'', JStr (u16 ''Unauthorized''))], initial_world)"
    using gateway_responses [of ?denied ?agent sample_env initial_world]
    by (simp add: auth u16_def)
  have r400: "post_generate_video ?agent sample_env ?partial initial_world
     = (Response 400 [(u16 ''error'', JStr (u16 ''Missing required parameters.''))], initial_world)"
    by (simp add: post_generate_video_def generate_video_handler_def auth field_def u16_def)
  have r200: "fst (post_generate_video ?agent sample_env ?good initial_world)
     = Response 200 [(u16 ''status'', JStr (u16 ''complete'')),
                     (u16 ''videoUrl'', JStr (u16 ''https://cdn/note-videos/7.mp4''))]"
    using run_good
    by (auto simp: post_generate_video_def generate_video_handler_def Let_def auth field_def
        number_truthy_def u16_def split: prod.splits sum.splits)
  have r500: "fst (post_generate_video ?agent sample_env ?bad initial_world)
     = Response 500 [(u16 ''error'', JStr (u16 ''Failed to generate video.'')),
                     (u16 ''details'', JStr (u16 ''Could not break note into scenes.''))]"
    using run_bad
    by (auto simp: post_generate_video_def generate_video_handler_def Let_def auth field_def
        number_truthy_def u16_def EmptyInputError_def new_Error_def split: prod.splits sum.splits)
  show ?thesis
    by (intro conjI r413 r401 r400 r200 r500)
qed

text \<open>
  C10, as stated, fails on the program: the check of the fields is behind the check of the
  header, so a request with a falsy \<open>noteId\<close> and without the right header gets 401, not
  400.
\<close>

theorem falsy_field_counterexample:
  "map_of [(u16 ''noteId'', JNum (Fin 0)), (u16 ''noteText'', JStr (u16 ''Hi.'')),
           (u16 ''subjectName'', JStr (u16 ''Physics''))] (u16 ''noteId'') = Some (JNum (Fin 0))
   \<and> generate_video_handler (generateVideoAndUpload sample_env) sample_env
        \<lparr>authorization = None,
         body = [(u16 ''noteId'', JNum (Fin 0)), (u16 ''noteText'', JStr (u16 ''Hi.'')),
                 (u16 ''subjectName'', JStr (u16 ''Physics''))]\<rparr> initial_world
      = (Response 401 [(u16 ''error'', JStr (u16 ''Unauthorized''))], initial_world)"
  by (simp add: generate_video_handler_def)

text \<open>
  C10, amended. For every request that carries the right \<open>Authorization\<close> header and in
  which one of the three fields is present but falsy (such as \<open>noteId\<close> equal to 0, or
  \<open>noteText\<close> or \<open>subjectName\<close> equal to the empty string), the response is 400 and the
  world is untouched, whatever the agent is: the agent is not called.
\<close>

theorem falsy_field_rejected:
  assumes "authorization req = Some (expected_authorization env)"
    and "k \<in> {''noteId'', ''noteText'', ''subjectName''}"
    and "map_of (body req) (u16 k) = Some v" and "\<not> truthy v"
  shows "generate_video_handler agent env req w
           = (Response 400 [(u16 ''error'', JStr (u16 ''Missing required parameters.''))], w)"
  using assms by (auto simp: generate_video_handler_def field_def Let_def)

theorem falsy_field_rejected_witness:
  "generate_video_handler (generateVideoAndUpload sample_env) sample_env
      \<lparr>authorization = Some (u16 ''Bearer s3cret''),
       body = [(u16 ''noteId'', JNum (Fin 0)), (u16 ''noteText'', JStr (u16 ''Hi.'')),
               (u16 ''subjectName'', JStr (u16 ''Physics''))]\<rparr> initial_world
     = (Response 400 [(u16 ''error'', JStr (u16 ''Missing required parameters.''))], initial_world)
   \<and> generate_video_handler (generateVideoAndUpload sample_env) sample_env
      \<lparr>authorization = Some (u16 ''Bearer s3cret''),
       body = [(u16 ''noteId'', JNum (Fin 7)), (u16 ''noteText'', JStr []),
               (u16 ''subjectName'', JStr (u16 ''Physics''))]\<rparr> initial_world
     = (Response 400 [(u16 ''error'', JStr (u16 ''Missing required parameters.''))], initial_world)"
proof -
  let ?zero = "\<lparr>authorization = Some (u16 ''Bearer s3cret''),
       body = [(u16 ''noteId'', JNum (Fin 0)), (u16 ''noteText'', JStr (u16 ''Hi.'')),
               (u16 ''subjectName'', JStr (u16 ''Physics''))]\<rparr>"
  let ?blank = "\<lparr>authorization = Some (u16 ''Bearer s3cret''),
       body = [(u16 ''noteId'', JNum (Fin 7)), (u16 ''noteText'', JStr []),
               (u16 ''subjectName'', JStr (u16 ''Physics''))]\<rparr>"
  have auth: "authorization ?zero = Some (expected_authorization sample_env)"
    "authorization ?blank = Some (expected_authorization sample_env)"
    by (simp_all add: expected_authorization_def sample_env_def u16_def)
  have k: "''noteId'' \<in> {''noteId'', ''noteText'', ''subjectName''}"
    "''noteText'' \<in> {''noteId'', ''noteText'', ''subjectName''}"
    by simp_all
  have v: "map_of (body ?zero) (u16 ''noteId'') = Some (JNum (Fin 0))"
    "map_of (body ?blank) (u16 ''noteText'') = Some (JStr [])"
    by (simp_all add: u16_def)
  have f: "\<not> truthy (JNum (Fin 0))" "\<not> truthy (JStr [])"
    by (simp_all add: number_truthy_def)
  from falsy_field_rejected [OF auth(1) k(1) v(1) f(1)]
    falsy_field_rejected [OF auth(2) k(2) v(2) f(2)]
  show ?thesis by simp
qed

end
